theory Spec2Isabelle
  imports Main "HOL-Library.Word"
begin

section \<open>JavaScript values and \<open>JSON.stringify\<close>\<close>

text \<open>
  The bridge handles untyped payloads (\<^verbatim>\<open>unknown\<close>, \<^verbatim>\<open>any\<close>). They are modelled as a
  tree of JavaScript values. An object is the list of its own enumerable properties in
  enumeration order, with distinct keys.

  A number is one of the integers from \<open>- 2 ^ 53\<close> to \<open>2 ^ 53 - 1\<close>, the signed
  value of a 54-bit word. A JavaScript number holds each of them exactly, and
  \<^verbatim>\<open>JSON.stringify\<close> prints each of them as its plain decimal digits; larger numbers,
  which it rounds or prints with an exponent, and fractions have no value in the model.
\<close>

datatype jsval =
    JUndefined
  | JNull
  | JBool bool
  | JNum "54 word"
  | JStr string
  | JArr "jsval list"
  | JObj "(string \<times> jsval) list"

definition dquote :: char where
  "dquote = CHR 0x22"

definition backslash :: char where
  "backslash = CHR 0x5C"

definition hex_digit :: "nat \<Rightarrow> char" where
  "hex_digit n = ''0123456789abcdef'' ! (n mod 16)"

text \<open>The escaping that \<^verbatim>\<open>JSON.stringify\<close> applies to one character of a string.\<close>

definition escape_char :: "char \<Rightarrow> string" where
  "escape_char c =
     (if c = dquote then [backslash, dquote]
      else if c = backslash then [backslash, backslash]
      else if c = CHR 0x08 then [backslash, CHR ''b'']
      else if c = CHR 0x0C then [backslash, CHR ''f'']
      else if c = CHR 0x0A then [backslash, CHR ''n'']
      else if c = CHR 0x0D then [backslash, CHR ''r'']
      else if c = CHR 0x09 then [backslash, CHR ''t'']
      else if (of_char c :: nat) < 32
        then backslash # ''u00'' @ [hex_digit (of_char c div 16), hex_digit (of_char c)]
      else [c])"

definition quote :: "string \<Rightarrow> string" where
  "quote s = dquote # concat (map escape_char s) @ [dquote]"

fun show_nat :: "nat \<Rightarrow> string" where
  "show_nat n =
     (if n < 10 then [hex_digit n] else show_nat (n div 10) @ [hex_digit (n mod 10)])"

text \<open>The decimal digits of an integer, with a minus sign when it is negative.\<close>

definition show_int :: "int \<Rightarrow> string" where
  "show_int i = (if i < 0 then CHR ''-'' # show_nat (nat (- i)) else show_nat (nat i))"

fun intercalate :: "string \<Rightarrow> string list \<Rightarrow> string" where
  "intercalate sep [] = []"
| "intercalate sep [x] = x"
| "intercalate sep (x # y # ys) = x @ sep @ intercalate sep (y # ys)"

text \<open>
  \<^verbatim>\<open>JSON.stringify\<close> without replacer and indentation. \<open>None\<close> stands for the result
  \<^verbatim>\<open>undefined\<close>: that is what the top-level call returns for \<^verbatim>\<open>undefined\<close>; inside
  an array \<^verbatim>\<open>undefined\<close> is written \<^verbatim>\<open>null\<close>, and a property whose value is
  \<^verbatim>\<open>undefined\<close> is left out of its object.
\<close>

fun stringify :: "jsval \<Rightarrow> string option" where
  "stringify JUndefined = None"
| "stringify JNull = Some ''null''"
| "stringify (JBool b) = Some (if b then ''true'' else ''false'')"
| "stringify (JNum n) = Some (show_int (sint n))"
| "stringify (JStr s) = Some (quote s)"
| "stringify (JArr xs) =
     Some (''['' @ intercalate '',''
       (map (\<lambda>x. case stringify x of None \<Rightarrow> ''null'' | Some s \<Rightarrow> s) xs) @ '']'')"
| "stringify (JObj ps) =
     Some (''{'' @ intercalate '',''
       (concat (map (\<lambda>p. case stringify (snd p) of
                             None \<Rightarrow> []
                           | Some s \<Rightarrow> [quote (fst p) @ '':'' @ s]) ps)) @ ''}'')"

definition JSON_stringify :: "jsval \<Rightarrow> jsval" where
  "JSON_stringify v = (case stringify v of None \<Rightarrow> JUndefined | Some s \<Rightarrow> JStr s)"

section \<open>The collaborators of the bridge\<close>

text \<open>
  Errors thrown by the code: the \<^verbatim>\<open>TypeError\<close> of a payload extractor and the plain
  \<^verbatim>\<open>Error\<close> of \<^verbatim>\<open>postEvent\<close>, each with its message.
\<close>

datatype error = TypeError string | Error string

text \<open>
  Raw-message sources (\<^verbatim>\<open>GlobalEventEmitter\<close> objects) and application listeners are
  objects compared by identity; they are modelled by identifiers.
\<close>

type_synonym source = nat
type_synonym listener = nat

text \<open>
  A listener of a source's \<^verbatim>\<open>message\<close> event is either the bridge's own
  \<^verbatim>\<open>processEvent\<close> function or a function of some other party.
\<close>

datatype message_listener = BridgeProcessEvent | Foreign nat

text \<open>The three environment predicates of \<^verbatim>\<open>./env\<close>, as the values they return.\<close>

record env =
  isBrowserEnv :: bool
  isDesktopOrMobileEnv :: bool
  isWindowsPhoneEnv :: bool

text \<open>The calls into the host that \<^verbatim>\<open>postEvent\<close> can make, with their arguments.\<close>

datatype host_call =
    Window_parent_postMessage jsval string
  | TelegramWebviewProxy_postEvent string jsval
  | Window_external_notify jsval

datatype log_arg = LVal jsval | LErr error

text \<open>
  One round of listener invocations of the bridge's event emitter: the event, the
  arguments passed after it, the listeners of that event and the listeners of all events
  that were called.
\<close>

record emission =
  unsafe :: bool
  kind :: string
  args :: "jsval list"
  called :: "listener list"
  notified :: "listener list"

text \<open>
  Everything outside the bridge object that its code reads or changes: the
  \<^verbatim>\<open>message\<close> listeners of every source, the environment, and the traces of console
  output, host calls and emission rounds.
\<close>

record world =
  message_listeners :: "source \<Rightarrow> message_listener list"
  environment :: env
  console :: "(string \<times> log_arg list) list"
  host_calls :: "host_call list"
  emissions :: "emission list"

text \<open>
  Modelled from the spec: the class \<^verbatim>\<open>EventEmitter\<close> of \<^verbatim>\<open>twa-core\<close> is not part of the
  source at hand. Its state is the list of registrations per event, in registration
  order, and the list of listeners subscribed to all events.
\<close>

record event_emitter =
  listeners :: "(string \<times> listener) list"
  subscribeListeners :: "listener list"

text \<open>Modelled from the spec: \<^verbatim>\<open>on(kind, listener)\<close> registers a listener for one kind.\<close>

definition ee_on :: "string \<Rightarrow> listener \<Rightarrow> event_emitter \<Rightarrow> event_emitter" where
  "ee_on k l ee = ee\<lparr>listeners := listeners ee @ [(k, l)]\<rparr>"

text \<open>
  Modelled from the spec: \<^verbatim>\<open>off(kind, listener)\<close> removes a prior registration and is a
  no-op for a listener that is not registered.
\<close>

definition ee_off :: "string \<Rightarrow> listener \<Rightarrow> event_emitter \<Rightarrow> event_emitter" where
  "ee_off k l ee = ee\<lparr>listeners := remove1 (k, l) (listeners ee)\<rparr>"

text \<open>Modelled from the spec: \<^verbatim>\<open>subscribe\<close> and \<^verbatim>\<open>unsubscribe\<close>.\<close>

definition ee_subscribe :: "listener \<Rightarrow> event_emitter \<Rightarrow> event_emitter" where
  "ee_subscribe l ee = ee\<lparr>subscribeListeners := subscribeListeners ee @ [l]\<rparr>"

definition ee_unsubscribe :: "listener \<Rightarrow> event_emitter \<Rightarrow> event_emitter" where
  "ee_unsubscribe l ee = ee\<lparr>subscribeListeners := remove1 l (subscribeListeners ee)\<rparr>"

text \<open>
  Modelled from the spec: \<^verbatim>\<open>emit(kind, payload?)\<close> invokes every listener registered for
  the kind, in registration order, and every subscribed listener; each call produces
  exactly one round. \<^verbatim>\<open>emitUnsafe\<close> is the same path for kinds outside the typed set.
  Listeners are opaque: the round is recorded, what a listener does is not modelled.
\<close>

definition round_of :: "event_emitter \<Rightarrow> bool \<Rightarrow> string \<Rightarrow> jsval list \<Rightarrow> emission" where
  "round_of ee u k as =
     \<lparr>unsafe = u, kind = k, args = as,
      called = map snd (filter (\<lambda>r. fst r = k) (listeners ee)),
      notified = subscribeListeners ee\<rparr>"

definition ee_emit :: "event_emitter \<Rightarrow> string \<Rightarrow> jsval list \<Rightarrow> world \<Rightarrow> world" where
  "ee_emit ee k as w = w\<lparr>emissions := emissions w @ [round_of ee False k as]\<rparr>"

definition ee_emitUnsafe :: "event_emitter \<Rightarrow> string \<Rightarrow> jsval list \<Rightarrow> world \<Rightarrow> world" where
  "ee_emitUnsafe ee k as w = w\<lparr>emissions := emissions w @ [round_of ee True k as]\<rparr>"

text \<open>
  Modelled from the spec: a source is an event emitter too; \<^verbatim>\<open>on('message', f)\<close> appends
  \<open>f\<close> to its \<^verbatim>\<open>message\<close> listeners and \<^verbatim>\<open>off('message', f)\<close> removes a prior
  registration of \<open>f\<close>, doing nothing when there is none.
\<close>

definition source_on :: "source \<Rightarrow> message_listener \<Rightarrow> world \<Rightarrow> world" where
  "source_on s f w =
     w\<lparr>message_listeners := (message_listeners w)(s := message_listeners w s @ [f])\<rparr>"

definition source_off :: "source \<Rightarrow> message_listener \<Rightarrow> world \<Rightarrow> world" where
  "source_off s f w =
     w\<lparr>message_listeners := (message_listeners w)(s := remove1 f (message_listeners w s))\<rparr>"

text \<open>
  The payload extractors of \<^verbatim>\<open>./parsing\<close> and \<^verbatim>\<open>parseJsonParamAsString\<close> of
  \<^verbatim>\<open>twa-core\<close> are parameters of the model: pure functions that return the validated
  payload or throw.
\<close>

record extractors =
  extractViewportChangedPayload :: "jsval \<Rightarrow> error + jsval"
  extractThemeChangedPayload :: "jsval \<Rightarrow> error + jsval"
  extractPopupClosedPayload :: "jsval \<Rightarrow> error + jsval"
  extractInvoiceClosedPayload :: "jsval \<Rightarrow> error + jsval"
  parseJsonParamAsString :: "jsval \<Rightarrow> error + jsval"

section \<open>The class \<^verbatim>\<open>Bridge\<close>\<close>

record BridgeProps =
  props_debug :: "bool option"
  props_targetOrigin :: "string option"
  props_emitter :: "source option"

record PostEventOptions =
  opt_targetOrigin :: "string option"

text \<open>The fields of a \<^verbatim>\<open>Bridge\<close> object; \<open>boundEmitter\<close> is the field \<^verbatim>\<open>_boundEmitter\<close>.\<close>

record bridge =
  boundEmitter :: "source option"
  targetOrigin :: string
  ee :: event_emitter
  debug :: bool

text \<open>
  The setter of \<^verbatim>\<open>boundEmitter\<close>, statement by statement: detach from the previous
  emitter, assign, attach to the new one.
\<close>

definition detach_previous :: "bridge \<Rightarrow> world \<Rightarrow> world" where
  "detach_previous b w =
     (case boundEmitter b of
        None \<Rightarrow> w
      | Some old \<Rightarrow> source_off old BridgeProcessEvent w)"

definition assign_emitter :: "source option \<Rightarrow> bridge \<Rightarrow> bridge" where
  "assign_emitter emitter b = b\<lparr>boundEmitter := emitter\<rparr>"

definition attach_current :: "bridge \<Rightarrow> world \<Rightarrow> world" where
  "attach_current b w =
     (case boundEmitter b of
        None \<Rightarrow> w
      | Some new \<Rightarrow> source_on new BridgeProcessEvent w)"

definition set_boundEmitter :: "source option \<Rightarrow> bridge \<Rightarrow> world \<Rightarrow> bridge \<times> world" where
  "set_boundEmitter emitter b w =
     (let w1 = detach_previous b w;
          b1 = assign_emitter emitter b;
          w2 = attach_current b1 w1
      in (b1, w2))"

text \<open>The states the setter passes through, from the state before to the state after.\<close>

definition set_boundEmitter_states ::
  "source option \<Rightarrow> bridge \<Rightarrow> world \<Rightarrow> (bridge \<times> world) list" where
  "set_boundEmitter_states emitter b w =
     (let w1 = detach_previous b w;
          b1 = assign_emitter emitter b;
          w2 = attach_current b1 w1
      in [(b, w), (b, w1), (b1, w1), (b1, w2)])"

text \<open>
  The constructor. The field initialisers run first (\<^verbatim>\<open>_boundEmitter = null\<close>, a new
  event emitter), then the body: defaults for the three properties, and the emitter
  assigned through the setter.
\<close>

definition new_event_emitter :: event_emitter where
  "new_event_emitter = \<lparr>listeners = [], subscribeListeners = []\<rparr>"

definition Bridge_new :: "BridgeProps \<Rightarrow> world \<Rightarrow> bridge \<times> world" where
  "Bridge_new props w =
     (let d = (case props_debug props of None \<Rightarrow> False | Some x \<Rightarrow> x);
          emitter = props_emitter props;
          t = (case props_targetOrigin props of
                 None \<Rightarrow> ''https://web.telegram.org''
               | Some x \<Rightarrow> x);
          b0 = \<lparr>boundEmitter = None, targetOrigin = t, ee = new_event_emitter, debug = d\<rparr>
      in set_boundEmitter emitter b0 w)"

definition bind :: "source \<Rightarrow> bridge \<Rightarrow> world \<Rightarrow> bridge \<times> world" where
  "bind emitter b w = set_boundEmitter (Some emitter) b w"

definition unbind :: "bridge \<Rightarrow> world \<Rightarrow> bridge \<times> world" where
  "unbind b w = set_boundEmitter None b w"

text \<open>
  \<^verbatim>\<open>this.log\<close>: console output only in debug mode. The function \<^verbatim>\<open>log\<close> of
  \<^verbatim>\<open>twa-core\<close> is modelled by the entry it is called with.
\<close>

definition bridge_log :: "bridge \<Rightarrow> string \<Rightarrow> log_arg list \<Rightarrow> world \<Rightarrow> world" where
  "bridge_log b level as w =
     (if debug b then w\<lparr>console := console w @ [(level, LVal (JStr ''[Bridge]'') # as)]\<rparr>
      else w)"

definition emit :: "bridge \<Rightarrow> string \<Rightarrow> jsval list \<Rightarrow> world \<Rightarrow> world" where
  "emit b event as w =
     ee_emit (ee b) event as
       (bridge_log b ''log'' (LVal (JStr ''[emit]'') # LVal (JStr event) # map LVal as) w)"

definition emitUnsafe :: "bridge \<Rightarrow> string \<Rightarrow> jsval list \<Rightarrow> world \<Rightarrow> world" where
  "emitUnsafe b event as w =
     ee_emitUnsafe (ee b) event as
       (bridge_log b ''log'' (LVal (JStr ''[emitUnsafe]'') # LVal (JStr event) # map LVal as) w)"

text \<open>
  The body of the \<^verbatim>\<open>try\<close> block of \<^verbatim>\<open>processEvent\<close>: the \<^verbatim>\<open>switch\<close> over the event
  name. An extractor is evaluated before the call of \<^verbatim>\<open>emit\<close> it is an argument of, so
  when it throws nothing is emitted.
\<close>

definition emit_extracted ::
  "bridge \<Rightarrow> string \<Rightarrow> error + jsval \<Rightarrow> world \<Rightarrow> error + world" where
  "emit_extracted b type r w =
     (case r of Inl e \<Rightarrow> Inl e | Inr payload \<Rightarrow> Inr (emit b type [payload] w))"

definition dispatch ::
  "extractors \<Rightarrow> bridge \<Rightarrow> string \<Rightarrow> jsval \<Rightarrow> world \<Rightarrow> error + world" where
  "dispatch X b type data w =
     (if type = ''viewport_changed'' then
        emit_extracted b type (extractViewportChangedPayload X data) w
      else if type = ''theme_changed'' then
        emit_extracted b type (extractThemeChangedPayload X data) w
      else if type = ''popup_closed'' then
        (if data = JUndefined \<or> data = JNull then
           Inr (emit b type [JObj [(''button_id'', JNull)]] w)
         else emit_extracted b type (extractPopupClosedPayload X data) w)
      else if type = ''set_custom_style'' then
        emit_extracted b type (parseJsonParamAsString X data) w
      else if type = ''main_button_pressed'' \<or> type = ''back_button_pressed''
              \<or> type = ''settings_button_pressed'' then
        Inr (emit b type [] w)
      else if type = ''invoice_closed'' then
        emit_extracted b type (extractInvoiceClosedPayload X data) w
      else Inr (emitUnsafe b type [data] w))"

text \<open>
  \<^verbatim>\<open>processEvent\<close>: the call is logged, the switch runs, and an error thrown in it is
  logged and thrown again. \<open>Inl (e, w')\<close> is a throw of \<open>e\<close> that leaves the world \<open>w'\<close>.
\<close>

definition processEvent ::
  "extractors \<Rightarrow> bridge \<Rightarrow> string \<Rightarrow> jsval \<Rightarrow> world \<Rightarrow> (error \<times> world) + world" where
  "processEvent X b type data w =
     (let w1 = bridge_log b ''log''
                 [LVal (JStr ''[processEvent]''), LVal (JStr type), LVal data] w
      in case dispatch X b type data w1 of
           Inr w2 \<Rightarrow> Inr w2
         | Inl e \<Rightarrow>
             Inl (e, bridge_log b ''error''
                       [LVal (JStr ''[processEvent] error''), LErr e] w1))"

text \<open>
  \<^verbatim>\<open>postEvent\<close>. An argument that is left out is \<^verbatim>\<open>undefined\<close>, and the defaults
  \<^verbatim>\<open>params = ''\<close> and \<^verbatim>\<open>options = {}\<close> replace \<^verbatim>\<open>undefined\<close>. The operator
  \<^verbatim>\<open>||\<close> takes its right operand when the left one is \<^verbatim>\<open>undefined\<close> or the empty
  string.
\<close>

definition post_message :: "string \<Rightarrow> jsval \<Rightarrow> jsval" where
  "post_message event params =
     JSON_stringify (JObj [(''eventType'', JStr event), (''eventData'', params)])"

definition call_host :: "host_call \<Rightarrow> world \<Rightarrow> world" where
  "call_host c w = w\<lparr>host_calls := host_calls w @ [c]\<rparr>"

definition postEvent ::
  "bridge \<Rightarrow> string \<Rightarrow> jsval \<Rightarrow> PostEventOptions option \<Rightarrow> world \<Rightarrow> (error \<times> world) + world"
  where
  "postEvent b event params0 options0 w =
     (let params = (if params0 = JUndefined then JStr [] else params0);
          options = (case options0 of None \<Rightarrow> \<lparr>opt_targetOrigin = None\<rparr> | Some x \<Rightarrow> x);
          origin = (case opt_targetOrigin options of
                      None \<Rightarrow> targetOrigin b
                    | Some x \<Rightarrow> if x = [] then targetOrigin b else x);
          logged = (\<lambda>method. bridge_log b ''log''
                      [LVal (JStr ''[postEvent]''), LVal (JStr method), LVal (JStr event),
                       LVal params])
      in if isBrowserEnv (environment w) then
           Inr (logged ''window.parent.postMessage''
                  (call_host (Window_parent_postMessage (post_message event params) origin) w))
         else if isDesktopOrMobileEnv (environment w) then
           Inr (logged ''window.TelegramWebviewProxy.postEvent''
                  (call_host (TelegramWebviewProxy_postEvent event (JSON_stringify params)) w))
         else if isWindowsPhoneEnv (environment w) then
           Inr (logged ''window.external.notify''
                  (call_host (Window_external_notify (post_message event params)) w))
         else
           Inl (Error (''Bridge could not determine current environment and possible ''
                       @ ''way to send event.''), w))"

text \<open>
  The overload declared for events without parameters is
  \<^verbatim>\<open>postEvent(event, options?)\<close>. A call through it passes its arguments by position to
  the one implementation \<^verbatim>\<open>postEvent(event, params = '', options = {})\<close>: the options
  object, when given, arrives as \<^verbatim>\<open>params\<close>, and \<^verbatim>\<open>options\<close> is left out.
\<close>

definition options_object :: "PostEventOptions \<Rightarrow> jsval" where
  "options_object opts =
     JObj (case opt_targetOrigin opts of
             None \<Rightarrow> []
           | Some origin \<Rightarrow> [(''targetOrigin'', JStr origin)])"

definition postEvent_empty ::
  "bridge \<Rightarrow> string \<Rightarrow> PostEventOptions option \<Rightarrow> world \<Rightarrow> (error \<times> world) + world"
  where
  "postEvent_empty b event options w =
     postEvent b event
       (case options of None \<Rightarrow> JUndefined | Some opts \<Rightarrow> options_object opts) None w"

text \<open>\<^verbatim>\<open>on\<close>, \<^verbatim>\<open>off\<close>, \<^verbatim>\<open>subscribe\<close> and \<^verbatim>\<open>unsubscribe\<close> are the emitter's methods.\<close>

definition on :: "string \<Rightarrow> listener \<Rightarrow> bridge \<Rightarrow> bridge" where
  "on k l b = b\<lparr>ee := ee_on k l (ee b)\<rparr>"

definition off :: "string \<Rightarrow> listener \<Rightarrow> bridge \<Rightarrow> bridge" where
  "off k l b = b\<lparr>ee := ee_off k l (ee b)\<rparr>"

definition subscribe :: "listener \<Rightarrow> bridge \<Rightarrow> bridge" where
  "subscribe l b = b\<lparr>ee := ee_subscribe l (ee b)\<rparr>"

definition unsubscribe :: "listener \<Rightarrow> bridge \<Rightarrow> bridge" where
  "unsubscribe l b = b\<lparr>ee := ee_unsubscribe l (ee b)\<rparr>"

section \<open>Messages from a source, and the states a bridge can reach\<close>

text \<open>
  Modelled from the spec: a source delivers a raw message \<open>(type, data)\<close> by calling its
  \<^verbatim>\<open>message\<close> listeners in registration order; an error thrown by a listener leaves
  the delivery. A listener of another party does not touch the bridge.
\<close>

fun notify ::
  "extractors \<Rightarrow> bridge \<Rightarrow> message_listener list \<Rightarrow> string \<Rightarrow> jsval \<Rightarrow> world
     \<Rightarrow> (error \<times> world) + world" where
  "notify X b [] type data w = Inr w"
| "notify X b (Foreign n # fs) type data w = notify X b fs type data w"
| "notify X b (BridgeProcessEvent # fs) type data w =
     (case processEvent X b type data w of
        Inl ew \<Rightarrow> Inl ew
      | Inr w' \<Rightarrow> notify X b fs type data w')"

definition deliver ::
  "extractors \<Rightarrow> bridge \<Rightarrow> source \<Rightarrow> string \<Rightarrow> jsval \<Rightarrow> world \<Rightarrow> (error \<times> world) + world"
  where
  "deliver X b s type data w = notify X b (message_listeners w s) type data w"

text \<open>
  What can happen to a bridge and its world after construction: calls of its public
  methods, messages from any source, other parties registering their own listeners on a
  source, and a change of the ambient environment. \<^verbatim>\<open>processEvent\<close> is private to the
  bridge, so no other party registers it.
\<close>

datatype operation =
    Bind source
  | Unbind
  | On string listener
  | Off string listener
  | Subscribe listener
  | Unsubscribe listener
  | PostEvent string jsval "PostEventOptions option"
  | Message source string jsval
  | Foreign_on source nat
  | Foreign_off source nat
  | Environment env

text \<open>The world a call leaves behind, whether it returned or threw.\<close>

definition world_after :: "(error \<times> world) + world \<Rightarrow> world" where
  "world_after r = (case r of Inl ew \<Rightarrow> snd ew | Inr w \<Rightarrow> w)"

fun perform :: "extractors \<Rightarrow> operation \<Rightarrow> bridge \<times> world \<Rightarrow> bridge \<times> world" where
  "perform X (Bind s) (b, w) = bind s b w"
| "perform X Unbind (b, w) = unbind b w"
| "perform X (On k l) (b, w) = (on k l b, w)"
| "perform X (Off k l) (b, w) = (off k l b, w)"
| "perform X (Subscribe l) (b, w) = (subscribe l b, w)"
| "perform X (Unsubscribe l) (b, w) = (unsubscribe l b, w)"
| "perform X (PostEvent event params options) (b, w) =
     (b, world_after (postEvent b event params options w))"
| "perform X (Message s type data) (b, w) = (b, world_after (deliver X b s type data w))"
| "perform X (Foreign_on s n) (b, w) = (b, source_on s (Foreign n) w)"
| "perform X (Foreign_off s n) (b, w) = (b, source_off s (Foreign n) w)"
| "perform X (Environment e) (b, w) = (b, w\<lparr>environment := e\<rparr>)"

fun run :: "extractors \<Rightarrow> operation list \<Rightarrow> bridge \<times> world \<Rightarrow> bridge \<times> world" where
  "run X [] st = st"
| "run X (x # xs) st = run X xs (perform X x st)"

text \<open>
  Before a bridge is constructed its \<^verbatim>\<open>processEvent\<close> does not exist, so no source has
  it as a listener.
\<close>

definition attached :: "world \<Rightarrow> source \<Rightarrow> bool" where
  "attached w s = (BridgeProcessEvent \<in> set (message_listeners w s))"

definition fresh :: "world \<Rightarrow> bool" where
  "fresh w = (\<forall>s. \<not> attached w s)"

definition at_most_one_attached :: "world \<Rightarrow> bool" where
  "at_most_one_attached w = (\<forall>s s'. attached w s \<and> attached w s' \<longrightarrow> s = s')"

text \<open>
  The binding invariant: \<^verbatim>\<open>processEvent\<close> is registered exactly once on the bound
  source and on no other source.
\<close>

definition binding_ok :: "bridge \<times> world \<Rightarrow> bool" where
  "binding_ok st =
     (\<forall>s. count_list (message_listeners (snd st) s) BridgeProcessEvent
            = (if boundEmitter (fst st) = Some s then 1 else 0))"

text \<open>The closed set of inbound kinds: the \<^verbatim>\<open>case\<close> labels of the switch.\<close>

definition known_kinds :: "string list" where
  "known_kinds =
     [''viewport_changed'', ''theme_changed'', ''popup_closed'', ''set_custom_style'',
      ''main_button_pressed'', ''back_button_pressed'', ''settings_button_pressed'',
      ''invoice_closed'']"

section \<open>An example instance\<close>

text \<open>
  The theorems below hold for all extractors. To evaluate them on concrete inputs, here is
  one instance: an extractor for a structure keeps the listed properties of an object and
  throws when one is missing or the value is not an object; the string parser accepts
  strings only.
\<close>

definition example_struct :: "string list \<Rightarrow> jsval \<Rightarrow> error + jsval" where
  "example_struct keys v =
     (case v of
        JObj ps \<Rightarrow>
          if set keys \<subseteq> set (map fst ps)
          then Inr (JObj (filter (\<lambda>p. fst p \<in> set keys) ps))
          else Inl (TypeError ''Value has unexpected format'')
      | _ \<Rightarrow> Inl (TypeError ''Value has unexpected format''))"

definition example_string :: "jsval \<Rightarrow> error + jsval" where
  "example_string v =
     (case v of
        JStr s \<Rightarrow> Inr (JStr s)
      | _ \<Rightarrow> Inl (TypeError ''Value has unexpected format''))"

definition example_extractors :: extractors where
  "example_extractors =
     \<lparr>extractViewportChangedPayload =
        example_struct [''height'', ''width'', ''is_expanded'', ''is_state_stable''],
      extractThemeChangedPayload = example_struct [''theme_params''],
      extractPopupClosedPayload = example_struct [''button_id''],
      extractInvoiceClosedPayload = example_struct [''slug'', ''status''],
      parseJsonParamAsString = example_string\<rparr>"

definition example_env :: "bool \<Rightarrow> bool \<Rightarrow> bool \<Rightarrow> env" where
  "example_env br sh wp =
     \<lparr>isBrowserEnv = br, isDesktopOrMobileEnv = sh, isWindowsPhoneEnv = wp\<rparr>"

definition example_world :: "env \<Rightarrow> world" where
  "example_world e =
     \<lparr>message_listeners = (\<lambda>s. if s = 7 then [Foreign 0] else []), environment = e,
      console = [], host_calls = [], emissions = []\<rparr>"

definition example_bridge :: bridge where
  "example_bridge =
     \<lparr>boundEmitter = None, targetOrigin = ''https://web.telegram.org'',
      ee = \<lparr>listeners = [(''popup_closed'', 1), (''viewport_changed'', 2)],
            subscribeListeners = [3]\<rparr>,
      debug = False\<rparr>"

definition example_props :: BridgeProps where
  "example_props = \<lparr>props_debug = None, props_targetOrigin = None, props_emitter = None\<rparr>"

text \<open>
  A bridge constructed without an emitter, bound to source 7, then to source 1, then to
  source 2, and finally unbound.
\<close>

definition example_state0 :: "bridge \<times> world" where
  "example_state0 =
     run example_extractors [Bind 7]
       (Bridge_new example_props (example_world (example_env True False False)))"

definition example_state1 :: "bridge \<times> world" where
  "example_state1 = bind 1 (fst example_state0) (snd example_state0)"

definition example_state2 :: "bridge \<times> world" where
  "example_state2 = bind 2 (fst example_state1) (snd example_state1)"

definition example_state3 :: "bridge \<times> world" where
  "example_state3 = unbind (fst example_state1) (snd example_state1)"

section \<open>Evaluating the switch\<close>

lemma dispatch_viewport_changed:
  "dispatch X b ''viewport_changed'' d w =
     emit_extracted b ''viewport_changed'' (extractViewportChangedPayload X d) w"
  by (simp add: dispatch_def)

lemma dispatch_theme_changed:
  "dispatch X b ''theme_changed'' d w =
     emit_extracted b ''theme_changed'' (extractThemeChangedPayload X d) w"
  by (simp add: dispatch_def)

lemma dispatch_popup_closed:
  "dispatch X b ''popup_closed'' d w =
     (if d = JUndefined \<or> d = JNull
      then Inr (emit b ''popup_closed'' [JObj [(''button_id'', JNull)]] w)
      else emit_extracted b ''popup_closed'' (extractPopupClosedPayload X d) w)"
  by (simp add: dispatch_def)

lemma dispatch_set_custom_style:
  "dispatch X b ''set_custom_style'' d w =
     emit_extracted b ''set_custom_style'' (parseJsonParamAsString X d) w"
  by (simp add: dispatch_def)

lemma dispatch_main_button_pressed:
  "dispatch X b ''main_button_pressed'' d w = Inr (emit b ''main_button_pressed'' [] w)"
  by (simp add: dispatch_def)

lemma dispatch_back_button_pressed:
  "dispatch X b ''back_button_pressed'' d w = Inr (emit b ''back_button_pressed'' [] w)"
  by (simp add: dispatch_def)

lemma dispatch_settings_button_pressed:
  "dispatch X b ''settings_button_pressed'' d w =
     Inr (emit b ''settings_button_pressed'' [] w)"
  by (simp add: dispatch_def)

lemma dispatch_invoice_closed:
  "dispatch X b ''invoice_closed'' d w =
     emit_extracted b ''invoice_closed'' (extractInvoiceClosedPayload X d) w"
  by (simp add: dispatch_def)

lemma dispatch_unknown:
  "t \<notin> set known_kinds \<Longrightarrow> dispatch X b t d w = Inr (emitUnsafe b t [d] w)"
  by (simp add: dispatch_def known_kinds_def)

lemmas dispatch_known =
  dispatch_viewport_changed dispatch_theme_changed dispatch_popup_closed
  dispatch_set_custom_style dispatch_main_button_pressed dispatch_back_button_pressed
  dispatch_settings_button_pressed dispatch_invoice_closed

section \<open>What logging and emitting leave alone\<close>

lemma bridge_log_frame [simp]:
  "message_listeners (bridge_log b l as w) = message_listeners w"
  "emissions (bridge_log b l as w) = emissions w"
  "host_calls (bridge_log b l as w) = host_calls w"
  "environment (bridge_log b l as w) = environment w"
  by (simp_all add: bridge_log_def)

lemma bridge_log_quiet [simp]: "\<not> debug b \<Longrightarrow> bridge_log b l as w = w"
  by (simp add: bridge_log_def)

lemma emit_frame [simp]:
  "message_listeners (emit b k as w) = message_listeners w"
  "host_calls (emit b k as w) = host_calls w"
  "environment (emit b k as w) = environment w"
  "message_listeners (emitUnsafe b k as w) = message_listeners w"
  "host_calls (emitUnsafe b k as w) = host_calls w"
  "environment (emitUnsafe b k as w) = environment w"
  by (simp_all add: emit_def emitUnsafe_def ee_emit_def ee_emitUnsafe_def)

lemma emissions_emit [simp]:
  "emissions (emit b k as w) = emissions w @ [round_of (ee b) False k as]"
  "emissions (emitUnsafe b k as w) = emissions w @ [round_of (ee b) True k as]"
  by (simp_all add: emit_def emitUnsafe_def ee_emit_def ee_emitUnsafe_def)

lemma message_listeners_emit_extracted:
  "message_listeners (case emit_extracted b t r w of Inl e \<Rightarrow> w | Inr w' \<Rightarrow> w')
     = message_listeners w"
  by (simp add: emit_extracted_def split: sum.split)

lemma message_listeners_dispatch_known:
  "\<forall>t \<in> set known_kinds.
     message_listeners (case dispatch X b t d w of Inl e \<Rightarrow> w | Inr w' \<Rightarrow> w')
       = message_listeners w"
  unfolding known_kinds_def
  by (simp add: dispatch_known message_listeners_emit_extracted)

lemma message_listeners_dispatch:
  "message_listeners (case dispatch X b t d w of Inl e \<Rightarrow> w | Inr w' \<Rightarrow> w')
     = message_listeners w"
proof (cases "t \<in> set known_kinds")
  case True
  with message_listeners_dispatch_known show ?thesis by blast
next
  case False
  then show ?thesis by (simp add: dispatch_unknown)
qed

lemma message_listeners_processEvent:
  "message_listeners (world_after (processEvent X b t d w)) = message_listeners w"
  using message_listeners_dispatch [where X = X and b = b and t = t and d = d
      and w = "bridge_log b ''log'' [LVal (JStr ''[processEvent]''), LVal (JStr t), LVal d] w"]
  by (simp add: processEvent_def world_after_def Let_def split: sum.splits)

lemma message_listeners_postEvent:
  "message_listeners (world_after (postEvent b e p opts w)) = message_listeners w"
  by (simp add: postEvent_def world_after_def Let_def call_host_def)

lemma message_listeners_notify:
  "message_listeners (world_after (notify X b fs t d w)) = message_listeners w"
proof (induction fs arbitrary: w)
  case Nil
  then show ?case by (simp add: world_after_def)
next
  case (Cons f fs)
  show ?case
  proof (cases f)
    case BridgeProcessEvent
    show ?thesis
    proof (cases "processEvent X b t d w")
      case (Inl ew)
      with message_listeners_processEvent [of X b t d w] BridgeProcessEvent
      show ?thesis by (simp add: world_after_def)
    next
      case (Inr w')
      with message_listeners_processEvent [of X b t d w] BridgeProcessEvent Cons.IH [of w']
      show ?thesis by (simp add: world_after_def)
    qed
  next
    case (Foreign n)
    with Cons.IH show ?thesis by simp
  qed
qed

section \<open>The binding invariant\<close>

lemma count_list_remove1_same: "count_list (remove1 x xs) x = count_list xs x - 1"
  by (induction xs) auto

lemma count_list_remove1_other: "x \<noteq> y \<Longrightarrow> count_list (remove1 y xs) x = count_list xs x"
  by (induction xs) auto

lemma attached_count:
  "attached w s \<longleftrightarrow> count_list (message_listeners w s) BridgeProcessEvent \<noteq> 0"
  by (simp add: attached_def count_list_0_iff)

lemma binding_ok_attached:
  "binding_ok (b, w) \<Longrightarrow> attached w s \<longleftrightarrow> boundEmitter b = Some s"
  by (simp add: attached_count binding_ok_def)

lemma binding_ok_set_boundEmitter:
  assumes "binding_ok (b, w)"
  shows "binding_ok (set_boundEmitter e b w)"
  using assms
  by (auto simp: binding_ok_def set_boundEmitter_def Let_def detach_previous_def
      assign_emitter_def attach_current_def source_on_def source_off_def
      count_list_remove1_same split: option.splits)

lemma binding_ok_perform: "binding_ok st \<Longrightarrow> binding_ok (perform X x st)"
proof (cases st)
  case (Pair b w)
  assume ok: "binding_ok st"
  show ?thesis
  proof (cases x)
    case (Bind s)
    with ok Pair show ?thesis by (simp add: bind_def binding_ok_set_boundEmitter)
  next
    case Unbind
    with ok Pair show ?thesis by (simp add: unbind_def binding_ok_set_boundEmitter)
  next
    case (PostEvent e p opts)
    with ok Pair show ?thesis by (simp add: binding_ok_def message_listeners_postEvent)
  next
    case (Message s t d)
    with ok Pair show ?thesis
      by (simp add: binding_ok_def deliver_def message_listeners_notify)
  next
    case (Foreign_on s n)
    with ok Pair show ?thesis by (simp add: binding_ok_def source_on_def)
  next
    case (Foreign_off s n)
    with ok Pair show ?thesis
      by (simp add: binding_ok_def source_off_def count_list_remove1_other)
  qed (use ok Pair in \<open>simp_all add: binding_ok_def on_def off_def subscribe_def unsubscribe_def\<close>)
qed

lemma binding_ok_run: "binding_ok st \<Longrightarrow> binding_ok (run X xs st)"
  by (induction xs arbitrary: st) (simp_all add: binding_ok_perform)

lemma binding_ok_Bridge_new: "fresh w \<Longrightarrow> binding_ok (Bridge_new props w)"
  unfolding Bridge_new_def Let_def
  by (rule binding_ok_set_boundEmitter) (simp add: binding_ok_def fresh_def attached_count)

lemma notify_none:
  "count_list fs BridgeProcessEvent = 0 \<Longrightarrow> notify X b fs t d w = Inr w"
proof (induction fs)
  case Nil
  then show ?case by simp
next
  case (Cons f fs)
  then show ?case by (cases f) (simp_all split: if_split_asm)
qed

lemma notify_once:
  "count_list fs BridgeProcessEvent = 1 \<Longrightarrow> notify X b fs t d w = processEvent X b t d w"
proof (induction fs)
  case Nil
  then show ?case by simp
next
  case (Cons f fs)
  show ?case
  proof (cases f)
    case BridgeProcessEvent
    with Cons.prems have "count_list fs BridgeProcessEvent = 0" by simp
    then have "\<And>w'. notify X b fs t d w' = Inr w'" by (rule notify_none)
    with BridgeProcessEvent show ?thesis by (simp split: sum.splits)
  next
    case (Foreign n)
    with Cons show ?thesis by simp
  qed
qed

section \<open>The event processor\<close>

lemma processEvent_returns:
  "dispatch X b t d (bridge_log b ''log'' [LVal (JStr ''[processEvent]''), LVal (JStr t), LVal d] w)
     = Inr w' \<Longrightarrow> processEvent X b t d w = Inr w'"
  by (simp add: processEvent_def)

lemma processEvent_throws:
  "dispatch X b t d (bridge_log b ''log'' [LVal (JStr ''[processEvent]''), LVal (JStr t), LVal d] w)
     = Inl e \<Longrightarrow>
   processEvent X b t d w =
     Inl (e, bridge_log b ''error'' [LVal (JStr ''[processEvent] error''), LErr e]
               (bridge_log b ''log''
                  [LVal (JStr ''[processEvent]''), LVal (JStr t), LVal d] w))"
  by (simp add: processEvent_def)

lemma dispatch_extractor_kinds:
  "\<forall>(t, extract) \<in> set [(''viewport_changed'', extractViewportChangedPayload X),
        (''theme_changed'', extractThemeChangedPayload X),
        (''invoice_closed'', extractInvoiceClosedPayload X),
        (''set_custom_style'', parseJsonParamAsString X),
        (''popup_closed'', extractPopupClosedPayload X)].
     (t = ''popup_closed'' \<longrightarrow> d \<noteq> JUndefined \<and> d \<noteq> JNull) \<longrightarrow>
     dispatch X b t d w = emit_extracted b t (extract d) w"
  by (simp add: dispatch_known)

text \<open>
  Claim C1. For each kind with an extractor (\<open>viewport_changed\<close>, \<open>theme_changed\<close>,
  \<open>invoice_closed\<close>, \<open>set_custom_style\<close>, and \<open>popup_closed\<close> with a payload that is
  neither \<open>undefined\<close> nor \<open>null\<close>): when the extractor accepts the raw payload,
  \<open>processEvent\<close> returns after exactly one emission of that kind whose only argument is
  the extractor's output; when the extractor throws, \<open>processEvent\<close> throws the same error
  and no emission, no host call and no change of any source's listeners has happened. The
  bridge's emitter is not changed by \<open>processEvent\<close> in any case: the function returns
  only a world.
\<close>

theorem processEvent_extractor_kinds:
  assumes "(type, extract) \<in> set [(''viewport_changed'', extractViewportChangedPayload X),
        (''theme_changed'', extractThemeChangedPayload X),
        (''invoice_closed'', extractInvoiceClosedPayload X),
        (''set_custom_style'', parseJsonParamAsString X),
        (''popup_closed'', extractPopupClosedPayload X)]"
    and "type = ''popup_closed'' \<longrightarrow> data \<noteq> JUndefined \<and> data \<noteq> JNull"
  shows "(\<forall>payload. extract data = Inr payload \<longrightarrow>
            (\<exists>w'. processEvent X b type data w = Inr w'
               \<and> emissions w' = emissions w @ [round_of (ee b) False type [payload]]))
       \<and> (\<forall>e. extract data = Inl e \<longrightarrow>
            (\<exists>w'. processEvent X b type data w = Inl (e, w')
               \<and> emissions w' = emissions w \<and> host_calls w' = host_calls w
               \<and> message_listeners w' = message_listeners w))"
proof -
  let ?w1 = "bridge_log b ''log'' [LVal (JStr ''[processEvent]''), LVal (JStr type), LVal data] w"
  from assms dispatch_extractor_kinds [of X data b ?w1]
  have d: "dispatch X b type data ?w1 = emit_extracted b type (extract data) ?w1"
    by blast
  show ?thesis
  proof (intro conjI allI impI)
    fix payload
    assume "extract data = Inr payload"
    with d have "dispatch X b type data ?w1 = Inr (emit b type [payload] ?w1)"
      by (simp add: emit_extracted_def)
    then have "processEvent X b type data w = Inr (emit b type [payload] ?w1)"
      by (rule processEvent_returns)
    then show "\<exists>w'. processEvent X b type data w = Inr w'
               \<and> emissions w' = emissions w @ [round_of (ee b) False type [payload]]"
      by simp
  next
    fix e
    assume "extract data = Inl e"
    with d have "dispatch X b type data ?w1 = Inl e"
      by (simp add: emit_extracted_def)
    then have "processEvent X b type data w =
        Inl (e, bridge_log b ''error'' [LVal (JStr ''[processEvent] error''), LErr e] ?w1)"
      by (rule processEvent_throws)
    then show "\<exists>w'. processEvent X b type data w = Inl (e, w')
               \<and> emissions w' = emissions w \<and> host_calls w' = host_calls w
               \<and> message_listeners w' = message_listeners w"
      by simp
  qed
qed

theorem processEvent_extractor_kinds_witness:
  "example_struct [''slug'', ''status'']
       (JObj [(''slug'', JStr ''abc''), (''extra'', JNum 1), (''status'', JStr ''paid'')])
     = Inr (JObj [(''slug'', JStr ''abc''), (''status'', JStr ''paid'')])
   \<and> map args (emissions (world_after (processEvent example_extractors example_bridge
        ''invoice_closed''
        (JObj [(''slug'', JStr ''abc''), (''extra'', JNum 1), (''status'', JStr ''paid'')])
        (example_world (example_env True False False)))))
     = [[JObj [(''slug'', JStr ''abc''), (''status'', JStr ''paid'')]]]
   \<and> example_struct [''slug'', ''status''] (JStr ''abc'')
     = Inl (TypeError ''Value has unexpected format'')
   \<and> processEvent example_extractors example_bridge ''invoice_closed'' (JStr ''abc'')
        (example_world (example_env True False False))
     = Inl (TypeError ''Value has unexpected format'',
            example_world (example_env True False False))"
proof -
  let ?X = example_extractors
  let ?w = "example_world (example_env True False False)"
  let ?d = "JObj [(''slug'', JStr ''abc''), (''extra'', JNum 1), (''status'', JStr ''paid'')]"
  have m: "(''invoice_closed'', extractInvoiceClosedPayload ?X)
      \<in> set [(''viewport_changed'', extractViewportChangedPayload ?X),
        (''theme_changed'', extractThemeChangedPayload ?X),
        (''invoice_closed'', extractInvoiceClosedPayload ?X),
        (''set_custom_style'', parseJsonParamAsString ?X),
        (''popup_closed'', extractPopupClosedPayload ?X)]"
    by simp
  have p: "''invoice_closed'' = ''popup_closed'' \<longrightarrow> v \<noteq> JUndefined \<and> v \<noteq> JNull" for v
    by simp
  have x: "extractInvoiceClosedPayload ?X = example_struct [''slug'', ''status'']"
    by (simp add: example_extractors_def)
  have ok: "example_struct [''slug'', ''status''] ?d
      = Inr (JObj [(''slug'', JStr ''abc''), (''status'', JStr ''paid'')])"
    by (simp add: example_struct_def)
  have bad: "example_struct [''slug'', ''status''] (JStr ''abc'')
      = Inl (TypeError ''Value has unexpected format'')"
    by (simp add: example_struct_def)
  from processEvent_extractor_kinds [OF m p, of ?d example_bridge ?w] ok x
  have one: "map args (emissions (world_after (processEvent ?X example_bridge
        ''invoice_closed'' ?d ?w)))
     = [[JObj [(''slug'', JStr ''abc''), (''status'', JStr ''paid'')]]]"
    by (auto simp: world_after_def example_world_def round_of_def)
  have two: "processEvent ?X example_bridge ''invoice_closed'' (JStr ''abc'') ?w
     = Inl (TypeError ''Value has unexpected format'', ?w)"
    by (simp add: processEvent_def dispatch_invoice_closed x bad emit_extracted_def
        example_bridge_def)
  from ok one bad two show ?thesis by simp
qed

text \<open>
  Claim C2. \<open>processEvent\<close> of \<open>popup_closed\<close> with the payload \<open>undefined\<close> and with
  the payload \<open>null\<close> returns after one emission of \<open>popup_closed\<close> whose only
  argument is \<open>{button_id: null}\<close>. Every other payload, the falsy values \<open>0\<close>,
  \<open>false\<close> and the empty string included, goes through the popup extractor: when it
  accepts, its output is the argument of the one emission; when it throws, its error is
  thrown and nothing is emitted.
\<close>

theorem popup_closed_payloads:
  "processEvent X b ''popup_closed'' JUndefined w =
     Inr (emit b ''popup_closed'' [JObj [(''button_id'', JNull)]]
            (bridge_log b ''log''
               [LVal (JStr ''[processEvent]''), LVal (JStr ''popup_closed''), LVal JUndefined] w))
   \<and> emissions (world_after (processEvent X b ''popup_closed'' JUndefined w))
       = emissions w
           @ [round_of (ee b) False ''popup_closed'' [JObj [(''button_id'', JNull)]]]
   \<and> processEvent X b ''popup_closed'' JNull w =
     Inr (emit b ''popup_closed'' [JObj [(''button_id'', JNull)]]
            (bridge_log b ''log''
               [LVal (JStr ''[processEvent]''), LVal (JStr ''popup_closed''), LVal JNull] w))
   \<and> emissions (world_after (processEvent X b ''popup_closed'' JNull w))
       = emissions w
           @ [round_of (ee b) False ''popup_closed'' [JObj [(''button_id'', JNull)]]]
   \<and> (data \<noteq> JUndefined \<and> data \<noteq> JNull \<longrightarrow>
        processEvent X b ''popup_closed'' data w =
          (let w1 = bridge_log b ''log''
                      [LVal (JStr ''[processEvent]''), LVal (JStr ''popup_closed''), LVal data] w
           in case extractPopupClosedPayload X data of
                Inr payload \<Rightarrow> Inr (emit b ''popup_closed'' [payload] w1)
              | Inl e \<Rightarrow>
                  Inl (e, bridge_log b ''error''
                            [LVal (JStr ''[processEvent] error''), LErr e] w1))
        \<and> emissions (world_after (processEvent X b ''popup_closed'' data w))
            = (case extractPopupClosedPayload X data of
                 Inr payload \<Rightarrow>
                   emissions w @ [round_of (ee b) False ''popup_closed'' [payload]]
               | Inl e \<Rightarrow> emissions w))"
  by (simp add: processEvent_def dispatch_popup_closed emit_extracted_def Let_def
      world_after_def split: sum.split)

theorem popup_closed_payloads_witness:
  "emissions (world_after (processEvent example_extractors example_bridge ''popup_closed''
        JNull (example_world (example_env True False False))))
     = [\<lparr>unsafe = False, kind = ''popup_closed'', args = [JObj [(''button_id'', JNull)]],
         called = [1], notified = [3]\<rparr>]
   \<and> emissions (world_after (processEvent example_extractors example_bridge ''popup_closed''
        JUndefined (example_world (example_env True False False))))
     = [\<lparr>unsafe = False, kind = ''popup_closed'', args = [JObj [(''button_id'', JNull)]],
         called = [1], notified = [3]\<rparr>]
   \<and> JNum 0 \<noteq> JUndefined \<and> JNum 0 \<noteq> JNull
   \<and> processEvent example_extractors example_bridge ''popup_closed'' (JNum 0)
        (example_world (example_env True False False))
     = Inl (TypeError ''Value has unexpected format'',
            example_world (example_env True False False))
   \<and> emissions (world_after (processEvent example_extractors example_bridge ''popup_closed''
        (JObj [(''button_id'', JStr ''ok''), (''extra'', JBool False)])
        (example_world (example_env True False False))))
     = [\<lparr>unsafe = False, kind = ''popup_closed'', args = [JObj [(''button_id'', JStr ''ok'')]],
         called = [1], notified = [3]\<rparr>]"
proof -
  let ?X = example_extractors
  let ?b = example_bridge
  let ?w = "example_world (example_env True False False)"
  let ?d = "JObj [(''button_id'', JStr ''ok''), (''extra'', JBool False)]"
  have w: "emissions ?w = []"
    by (simp add: example_world_def)
  have r: "round_of (ee ?b) False ''popup_closed'' as
      = \<lparr>unsafe = False, kind = ''popup_closed'', args = as, called = [1], notified = [3]\<rparr>"
    for as
    by (simp add: round_of_def example_bridge_def)
  have x: "extractPopupClosedPayload ?X (JNum 0) = Inl (TypeError ''Value has unexpected format'')"
    "extractPopupClosedPayload ?X ?d = Inr (JObj [(''button_id'', JStr ''ok'')])"
    by (simp_all add: example_extractors_def example_struct_def)
  have q: "\<not> debug ?b"
    by (simp add: example_bridge_def)
  note t = popup_closed_payloads [of ?X ?b ?w "JNum 0"]
  from t
  have n: "emissions (world_after (processEvent ?X ?b ''popup_closed'' JNull ?w))
        = emissions ?w @ [round_of (ee ?b) False ''popup_closed'' [JObj [(''button_id'', JNull)]]]"
    by blast
  from t
  have u: "emissions (world_after (processEvent ?X ?b ''popup_closed'' JUndefined ?w))
        = emissions ?w @ [round_of (ee ?b) False ''popup_closed'' [JObj [(''button_id'', JNull)]]]"
    by blast
  have "JNum 0 \<noteq> JUndefined \<and> JNum 0 \<noteq> JNull"
    by simp
  with t
  have "processEvent ?X ?b ''popup_closed'' (JNum 0) ?w =
          (let w1 = bridge_log ?b ''log''
                      [LVal (JStr ''[processEvent]''), LVal (JStr ''popup_closed''),
                       LVal (JNum 0)] ?w
           in case extractPopupClosedPayload ?X (JNum 0) of
                Inr payload \<Rightarrow> Inr (emit ?b ''popup_closed'' [payload] w1)
              | Inl e \<Rightarrow>
                  Inl (e, bridge_log ?b ''error''
                            [LVal (JStr ''[processEvent] error''), LErr e] w1))"
    by blast
  then have z: "processEvent ?X ?b ''popup_closed'' (JNum 0) ?w
        = Inl (TypeError ''Value has unexpected format'', ?w)"
    by (simp add: x q)
  have "?d \<noteq> JUndefined \<and> ?d \<noteq> JNull"
    by simp
  with popup_closed_payloads [of ?X ?b ?w ?d]
  have "emissions (world_after (processEvent ?X ?b ''popup_closed'' ?d ?w))
            = (case extractPopupClosedPayload ?X ?d of
                 Inr payload \<Rightarrow>
                   emissions ?w @ [round_of (ee ?b) False ''popup_closed'' [payload]]
               | Inl e \<Rightarrow> emissions ?w)"
    by blast
  then have d: "emissions (world_after (processEvent ?X ?b ''popup_closed'' ?d ?w))
        = emissions ?w @ [round_of (ee ?b) False ''popup_closed'' [JObj [(''button_id'', JStr ''ok'')]]]"
    by (simp add: x)
  from n u z d show ?thesis
    by (simp add: w r)
qed

text \<open>
  Claim C5. For a kind that is not one of the labels of the switch, \<open>processEvent\<close>
  returns (it does not throw) after one emission through \<open>emitUnsafe\<close> whose only
  argument is the raw payload itself.
\<close>

theorem unknown_kind_emitted_unsafe:
  assumes "type \<notin> set known_kinds"
  shows "processEvent X b type data w =
           Inr (emitUnsafe b type [data]
                  (bridge_log b ''log''
                     [LVal (JStr ''[processEvent]''), LVal (JStr type), LVal data] w))
       \<and> emissions (world_after (processEvent X b type data w))
           = emissions w @ [round_of (ee b) True type [data]]"
  using assms by (simp add: processEvent_def dispatch_unknown world_after_def)

theorem unknown_kind_emitted_unsafe_witness:
  "''some_future_kind'' \<notin> set known_kinds
   \<and> emissions (world_after (processEvent example_extractors example_bridge
        ''some_future_kind'' (JObj [(''x'', JNum 1)])
        (example_world (example_env True False False))))
     = [\<lparr>unsafe = True, kind = ''some_future_kind'', args = [JObj [(''x'', JNum 1)]],
         called = [], notified = [3]\<rparr>]"
proof -
  have k: "''some_future_kind'' \<notin> set known_kinds"
    by (simp add: known_kinds_def)
  from unknown_kind_emitted_unsafe [OF k, of example_extractors example_bridge
      "JObj [(''x'', JNum 1)]" "example_world (example_env True False False)"]
  have e: "emissions (world_after (processEvent example_extractors example_bridge
        ''some_future_kind'' (JObj [(''x'', JNum 1)])
        (example_world (example_env True False False))))
     = emissions (example_world (example_env True False False))
         @ [round_of (ee example_bridge) True ''some_future_kind'' [JObj [(''x'', JNum 1)]]]"
    by (rule conjunct2)
  show ?thesis
    unfolding e using k
    by (simp add: example_world_def example_bridge_def round_of_def)
qed

text \<open>
  Claim C6. For \<open>main_button_pressed\<close>, \<open>back_button_pressed\<close> and
  \<open>settings_button_pressed\<close> and every raw payload, \<open>processEvent\<close> returns after one
  emission of the kind with no argument; the emissions are the same for any two raw
  payloads.
\<close>

theorem argumentless_kinds_ignore_payload:
  assumes "type \<in> set [''main_button_pressed'', ''back_button_pressed'',
                        ''settings_button_pressed'']"
  shows "(\<exists>w'. processEvent X b type data w = Inr w'
            \<and> emissions w' = emissions w @ [round_of (ee b) False type []])
       \<and> emissions (world_after (processEvent X b type data w))
           = emissions (world_after (processEvent X b type data' w))"
proof -
  have "\<forall>t \<in> set [''main_button_pressed'', ''back_button_pressed'',
                   ''settings_button_pressed''].
          \<forall>d. processEvent X b t d w =
            Inr (emit b t [] (bridge_log b ''log''
                   [LVal (JStr ''[processEvent]''), LVal (JStr t), LVal d] w))"
    by (simp add: processEvent_def dispatch_known)
  with assms have "\<forall>d. processEvent X b type d w =
            Inr (emit b type [] (bridge_log b ''log''
                   [LVal (JStr ''[processEvent]''), LVal (JStr type), LVal d] w))"
    by blast
  then show ?thesis by (simp add: world_after_def)
qed

theorem argumentless_kinds_ignore_payload_witness:
  "''back_button_pressed'' \<in> set [''main_button_pressed'', ''back_button_pressed'',
                                   ''settings_button_pressed'']
   \<and> emissions (world_after (processEvent example_extractors example_bridge
        ''back_button_pressed'' (JObj [(''x'', JNum 1)])
        (example_world (example_env True False False))))
     = emissions (world_after (processEvent example_extractors example_bridge
        ''back_button_pressed'' JUndefined
        (example_world (example_env True False False))))"
proof -
  have k: "''back_button_pressed'' \<in> set [''main_button_pressed'', ''back_button_pressed'',
                                   ''settings_button_pressed'']"
    by simp
  from argumentless_kinds_ignore_payload [OF k, of example_extractors example_bridge
      "JObj [(''x'', JNum 1)]" "example_world (example_env True False False)" JUndefined] k
  show ?thesis by simp
qed

section \<open>The outbound sender\<close>

lemma quote_empty: "quote [] = [dquote, dquote]"
  by (simp add: quote_def)

text \<open>
  Claim C4. When none of the three environment predicates holds, \<open>postEvent\<close> throws the
  environment error and leaves the world as it was: no call on any transport, no console
  output, and nothing is tried a second time.
\<close>

theorem postEvent_unknown_environment:
  assumes "\<not> isBrowserEnv (environment w)"
    and "\<not> isDesktopOrMobileEnv (environment w)"
    and "\<not> isWindowsPhoneEnv (environment w)"
  shows "postEvent b event params options w =
           Inl (Error (''Bridge could not determine current environment and possible ''
                       @ ''way to send event.''), w)"
  using assms by (simp add: postEvent_def Let_def)

theorem postEvent_unknown_environment_witness:
  "\<not> isBrowserEnv (environment (example_world (example_env False False False)))
   \<and> \<not> isDesktopOrMobileEnv (environment (example_world (example_env False False False)))
   \<and> \<not> isWindowsPhoneEnv (environment (example_world (example_env False False False)))
   \<and> postEvent example_bridge ''web_app_close'' JUndefined None
        (example_world (example_env False False False))
     = Inl (Error ''Bridge could not determine current environment and possible way to send event.'',
            example_world (example_env False False False))"
proof -
  let ?w = "example_world (example_env False False False)"
  have e: "\<not> isBrowserEnv (environment ?w)" "\<not> isDesktopOrMobileEnv (environment ?w)"
    "\<not> isWindowsPhoneEnv (environment ?w)"
    by (simp_all add: example_world_def example_env_def)
  from postEvent_unknown_environment [OF e, of example_bridge "''web_app_close''" JUndefined None] e
  show ?thesis by simp
qed

text \<open>
  Claim C8, as the claim states it, fails: an \<open>options.targetOrigin\<close> that is provided
  as the empty string is not the target; the bridge's own target origin is.
\<close>

theorem postEvent_empty_targetOrigin_counterexample:
  "host_calls (world_after (postEvent example_bridge ''web_app_data_send''
       (JObj [(''data'', JStr ''x'')]) (Some \<lparr>opt_targetOrigin = Some ''''\<rparr>)
       (example_world (example_env True False False))))
   = [Window_parent_postMessage
        (JSON_stringify (JObj [(''eventType'', JStr ''web_app_data_send''),
                               (''eventData'', JObj [(''data'', JStr ''x'')])]))
        ''https://web.telegram.org'']
   \<and> host_calls (world_after (postEvent example_bridge ''web_app_data_send''
       (JObj [(''data'', JStr ''x'')]) (Some \<lparr>opt_targetOrigin = Some ''''\<rparr>)
       (example_world (example_env True False False))))
   \<noteq> host_calls (example_world (example_env True False False))
       @ [Window_parent_postMessage
            (JSON_stringify (JObj [(''eventType'', JStr ''web_app_data_send''),
                                   (''eventData'', JObj [(''data'', JStr ''x'')])]))
            '''']"
  by (simp add: postEvent_def Let_def world_after_def call_host_def example_world_def
      example_env_def example_bridge_def bridge_log_def post_message_def)

text \<open>
  Claim C8, amended. In the browser environment, \<open>postEvent\<close> with a \<open>params\<close> argument
  makes exactly one host call: \<open>window.parent.postMessage\<close> with the JSON serialization
  of \<open>{eventType: kind, eventData: params}\<close>, targeted at \<open>options.targetOrigin\<close> when
  that is provided and not the empty string, and at the bridge's target origin otherwise.
  The bridge's target origin is the one given at construction, and
  \<open>https://web.telegram.org\<close> when none is given.
\<close>

theorem postEvent_browser:
  assumes "isBrowserEnv (environment w)"
    and "params \<noteq> JUndefined"
  shows "(\<exists>w'. postEvent b event params options w = Inr w'
            \<and> host_calls w' = host_calls w
                 @ [Window_parent_postMessage
                      (JSON_stringify (JObj [(''eventType'', JStr event),
                                             (''eventData'', params)]))
                      (case options of
                         None \<Rightarrow> targetOrigin b
                       | Some opts \<Rightarrow>
                           (case opt_targetOrigin opts of
                              None \<Rightarrow> targetOrigin b
                            | Some origin \<Rightarrow>
                                if origin = '''' then targetOrigin b else origin))])
       \<and> targetOrigin (fst (Bridge_new (props\<lparr>props_targetOrigin := None\<rparr>) u))
           = ''https://web.telegram.org''
       \<and> targetOrigin (fst (Bridge_new (props\<lparr>props_targetOrigin := Some t\<rparr>) u))
           = t"
  using assms
  by (simp add: postEvent_def Let_def call_host_def post_message_def Bridge_new_def
      set_boundEmitter_def assign_emitter_def split: option.split)

theorem postEvent_browser_witness:
  "isBrowserEnv (environment (example_world (example_env True False False)))
   \<and> JObj [(''data'', JStr ''x'')] \<noteq> JUndefined
   \<and> host_calls (world_after (postEvent example_bridge ''web_app_data_send''
        (JObj [(''data'', JStr ''x'')]) (Some \<lparr>opt_targetOrigin = Some ''https://example.org''\<rparr>)
        (example_world (example_env True False False))))
     = [Window_parent_postMessage
          (JStr (''{'' @ quote ''eventType'' @ '':'' @ quote ''web_app_data_send'' @ '',''
                 @ quote ''eventData'' @ '':{'' @ quote ''data'' @ '':'' @ quote ''x'' @ ''}}''))
          ''https://example.org'']"
proof -
  let ?w = "example_world (example_env True False False)"
  have e: "isBrowserEnv (environment ?w)"
    by (simp add: example_world_def example_env_def)
  have p: "JObj [(''data'', JStr ''x'')] \<noteq> JUndefined"
    by simp
  from postEvent_browser [OF e p, where b = example_bridge
      and event = "''web_app_data_send''"
      and options = "Some \<lparr>opt_targetOrigin = Some ''https://example.org''\<rparr>"
      and props = example_props and u = ?w and t = "[]"]
  have "\<exists>w'. postEvent example_bridge ''web_app_data_send''
        (JObj [(''data'', JStr ''x'')])
        (Some \<lparr>opt_targetOrigin = Some ''https://example.org''\<rparr>) ?w = Inr w'
    \<and> host_calls w' = host_calls ?w
      @ [Window_parent_postMessage
           (JSON_stringify (JObj [(''eventType'', JStr ''web_app_data_send''),
                                  (''eventData'', JObj [(''data'', JStr ''x'')])]))
           ''https://example.org'']"
    by simp
  then obtain w' where r: "postEvent example_bridge ''web_app_data_send''
        (JObj [(''data'', JStr ''x'')])
        (Some \<lparr>opt_targetOrigin = Some ''https://example.org''\<rparr>) ?w = Inr w'"
    and h: "host_calls w' = host_calls ?w
      @ [Window_parent_postMessage
           (JSON_stringify (JObj [(''eventType'', JStr ''web_app_data_send''),
                                  (''eventData'', JObj [(''data'', JStr ''x'')])]))
           ''https://example.org'']"
    by blast
  have "host_calls ?w = []"
    by (simp add: example_world_def)
  with e p r h show ?thesis
    by (simp add: world_after_def JSON_stringify_def)
qed

text \<open>
  When the second positional argument of \<open>postEvent\<close> is \<open>undefined\<close>, \<open>params\<close> is
  the empty string: the browser transport and the windows-phone transport send the JSON
  object whose \<open>eventData\<close> is the empty JSON string (two double-quote characters), and
  the shell transport receives that two-character string as its second argument. Each of
  the three is the only host call made.
\<close>

lemma postEvent_without_params:
  "(isBrowserEnv (environment w) \<longrightarrow>
      (\<exists>w' origin. postEvent b event JUndefined options w = Inr w'
         \<and> host_calls w' = host_calls w
              @ [Window_parent_postMessage
                   (JStr (''{'' @ quote ''eventType'' @ '':'' @ quote event @ '',''
                          @ quote ''eventData'' @ '':'' @ [dquote, dquote] @ ''}''))
                   origin]))
   \<and> (\<not> isBrowserEnv (environment w) \<and> isDesktopOrMobileEnv (environment w) \<longrightarrow>
      (\<exists>w'. postEvent b event JUndefined options w = Inr w'
         \<and> host_calls w' = host_calls w
              @ [TelegramWebviewProxy_postEvent event (JStr [dquote, dquote])]))
   \<and> (\<not> isBrowserEnv (environment w) \<and> \<not> isDesktopOrMobileEnv (environment w)
        \<and> isWindowsPhoneEnv (environment w) \<longrightarrow>
      (\<exists>w'. postEvent b event JUndefined options w = Inr w'
         \<and> host_calls w' = host_calls w
              @ [Window_external_notify
                   (JStr (''{'' @ quote ''eventType'' @ '':'' @ quote event @ '',''
                          @ quote ''eventData'' @ '':'' @ [dquote, dquote] @ ''}''))]))"
  by (simp add: postEvent_def Let_def call_host_def post_message_def JSON_stringify_def
      quote_empty)

lemma postEvent_without_params_witness:
  "\<not> isBrowserEnv (environment (example_world (example_env False True False)))
   \<and> isDesktopOrMobileEnv (environment (example_world (example_env False True False)))
   \<and> host_calls (world_after (postEvent example_bridge ''web_app_close'' JUndefined None
        (example_world (example_env False True False))))
     = [TelegramWebviewProxy_postEvent ''web_app_close'' (JStr [CHR 0x22, CHR 0x22])]"
proof -
  let ?w = "example_world (example_env False True False)"
  have e: "\<not> isBrowserEnv (environment ?w)" "isDesktopOrMobileEnv (environment ?w)"
    by (simp_all add: example_world_def example_env_def)
  have "host_calls ?w = []"
    by (simp add: example_world_def)
  with postEvent_without_params [of ?w example_bridge "''web_app_close''" None] e
  show ?thesis
    by (auto simp: world_after_def dquote_def)
qed

text \<open>
  Claim C10 says that a call of \<open>postEvent\<close> for an event without parameters, with no
  \<open>params\<close> argument, sends the empty string as \<open>eventData\<close>. The code does so only when
  nothing follows the event name. The overload declared for these events takes the
  options second; given options, the implementation reads them as \<open>params\<close>: the browser
  transport sends the options object as \<open>eventData\<close>, and to the bridge's own target
  origin, not to the one the options name.
\<close>

theorem postEvent_empty_sends_options:
  "host_calls (world_after (postEvent_empty example_bridge ''web_app_close''
       (Some \<lparr>opt_targetOrigin = Some ''https://example.org''\<rparr>)
       (example_world (example_env True False False))))
   = [Window_parent_postMessage
        (JStr (''{'' @ quote ''eventType'' @ '':'' @ quote ''web_app_close'' @ '',''
               @ quote ''eventData'' @ '':{'' @ quote ''targetOrigin'' @ '':''
               @ quote ''https://example.org'' @ ''}}''))
        ''https://web.telegram.org'']
   \<and> host_calls (world_after (postEvent_empty example_bridge ''web_app_close'' None
       (example_world (example_env True False False))))
   = [Window_parent_postMessage
        (JStr (''{'' @ quote ''eventType'' @ '':'' @ quote ''web_app_close'' @ '',''
               @ quote ''eventData'' @ '':'' @ quote '''' @ ''}''))
        ''https://web.telegram.org'']"
  by (simp add: postEvent_empty_def options_object_def postEvent_def Let_def world_after_def
      call_host_def example_world_def example_env_def example_bridge_def bridge_log_def
      post_message_def JSON_stringify_def)

section \<open>The binding manager\<close>

lemma binding_ok_reachable:
  "fresh u \<Longrightarrow> binding_ok (run X xs (Bridge_new props u))"
  by (simp add: binding_ok_run binding_ok_Bridge_new)

lemma binding_ok_at_most_one:
  "binding_ok (b, w) \<Longrightarrow> at_most_one_attached w"
  by (auto simp: at_most_one_attached_def binding_ok_attached)

lemma detach_previous_none:
  assumes "binding_ok (b, w)"
  shows "\<not> attached (detach_previous b w) s"
  using assms
  by (auto simp: binding_ok_def attached_count detach_previous_def source_off_def
      count_list_remove1_same split: option.splits)

lemma attach_current_only:
  assumes "\<forall>s. \<not> attached w s"
  shows "attached (attach_current b w) s \<longleftrightarrow> boundEmitter b = Some s"
  using assms
  by (auto simp: attached_def attach_current_def source_on_def split: option.splits)

lemma set_boundEmitter_states_ok:
  assumes "binding_ok (b, w)"
  shows "\<forall>st \<in> set (set_boundEmitter_states e b w). at_most_one_attached (snd st)"
proof -
  have none: "\<forall>s. \<not> attached (detach_previous b w) s"
    using assms by (simp add: detach_previous_none)
  have "at_most_one_attached w"
    using assms by (rule binding_ok_at_most_one)
  moreover have "at_most_one_attached (detach_previous b w)"
    using none by (simp add: at_most_one_attached_def)
  moreover have "at_most_one_attached (attach_current (assign_emitter e b) (detach_previous b w))"
    using none by (auto simp: at_most_one_attached_def attach_current_only)
  ultimately show ?thesis
    by (simp add: set_boundEmitter_states_def Let_def)
qed

lemma boundEmitter_set_boundEmitter:
  "boundEmitter (fst (set_boundEmitter e b w)) = e"
  by (simp add: set_boundEmitter_def Let_def assign_emitter_def)

lemma deliver_unbound_source:
  assumes "binding_ok (b, w)" and "boundEmitter b \<noteq> Some s"
  shows "deliver X b s t d w = Inr w"
  using assms by (simp add: deliver_def notify_none binding_ok_def)

lemma deliver_bound_source:
  assumes "binding_ok (b, w)" and "boundEmitter b = Some s"
  shows "deliver X b s t d w = processEvent X b t d w"
  using assms by (simp add: deliver_def notify_once binding_ok_def)

lemma boundEmitter_perform:
  assumes "\<forall>s. x \<noteq> Bind s" and "boundEmitter (fst st) = None"
  shows "boundEmitter (fst (perform X x st)) = None"
  using assms
  by (cases st; cases x)
    (simp_all add: unbind_def boundEmitter_set_boundEmitter on_def off_def subscribe_def
      unsubscribe_def)

lemma boundEmitter_run:
  assumes "\<forall>s. Bind s \<notin> set xs" and "boundEmitter (fst st) = None"
  shows "boundEmitter (fst (run X xs st)) = None"
  using assms
proof (induction xs arbitrary: st)
  case Nil
  then show ?case by simp
next
  case (Cons x xs)
  from Cons.prems have "\<forall>s. x \<noteq> Bind s" by auto
  with Cons.prems have "boundEmitter (fst (perform X x st)) = None"
    by (simp add: boundEmitter_perform)
  moreover from Cons.prems have "\<forall>s. Bind s \<notin> set xs" by auto
  ultimately show ?case using Cons.IH by simp
qed

text \<open>
  Claim C3. Take any state a bridge can reach from its construction in a world where its
  \<open>processEvent\<close> is attached nowhere, and two distinct sources \<open>A\<close> and \<open>B\<close>. After
  \<open>bind A\<close> followed by \<open>bind B\<close>, \<open>processEvent\<close> is not a listener of \<open>A\<close> and a message
  on \<open>A\<close> changes nothing, while a message on \<open>B\<close> is exactly one call of
  \<open>processEvent\<close>. The rebinding first detaches (after that step \<open>processEvent\<close> is
  attached to no source) and then attaches to \<open>B\<close>. In every reachable state, and in every
  state the setter passes through from a reachable state, \<open>processEvent\<close> is attached to
  at most one source.
\<close>

theorem rebinding_moves_processEvent:
  assumes "fresh u" and "A \<noteq> B"
    and "run X xs (Bridge_new props u) = (b, w)"
    and "bind A b w = (b1, w1)"
    and "bind B b1 w1 = (b2, w2)"
  shows "\<not> attached w2 A \<and> deliver X b2 A type data w2 = Inr w2
       \<and> attached w2 B \<and> deliver X b2 B type data w2 = processEvent X b2 type data w2
       \<and> (\<forall>s. \<not> attached (detach_previous b1 w1) s)
       \<and> w2 = attach_current b2 (detach_previous b1 w1)
       \<and> at_most_one_attached w
       \<and> (\<forall>e. \<forall>st \<in> set (set_boundEmitter_states e b w). at_most_one_attached (snd st))
       \<and> (\<forall>st \<in> set (set_boundEmitter_states (Some B) b1 w1).
             at_most_one_attached (snd st))"
proof -
  from assms(1,3) binding_ok_reachable [of u X xs props]
  have ok: "binding_ok (b, w)" by simp
  with assms(4) binding_ok_set_boundEmitter [of b w "Some A"]
  have ok1: "binding_ok (b1, w1)" by (simp add: bind_def)
  with assms(5) binding_ok_set_boundEmitter [of b1 w1 "Some B"]
  have ok2: "binding_ok (b2, w2)" by (simp add: bind_def)
  from assms(5) boundEmitter_set_boundEmitter [of "Some B" b1 w1]
  have bound: "boundEmitter b2 = Some B" by (simp add: bind_def)
  with assms(2) have other: "boundEmitter b2 \<noteq> Some A" by simp
  from ok2 other have "\<not> attached w2 A"
    by (simp add: binding_ok_attached)
  moreover from ok2 other have "deliver X b2 A type data w2 = Inr w2"
    by (rule deliver_unbound_source)
  moreover from ok2 bound have "attached w2 B"
    by (simp add: binding_ok_attached)
  moreover from ok2 bound have "deliver X b2 B type data w2 = processEvent X b2 type data w2"
    by (rule deliver_bound_source)
  moreover from ok1 have "\<forall>s. \<not> attached (detach_previous b1 w1) s"
    by (simp add: detach_previous_none)
  moreover from assms(5) have "w2 = attach_current b2 (detach_previous b1 w1)"
    by (auto simp: bind_def set_boundEmitter_def Let_def)
  moreover from ok have "at_most_one_attached w"
    by (rule binding_ok_at_most_one)
  moreover from ok
  have "\<forall>e. \<forall>st \<in> set (set_boundEmitter_states e b w). at_most_one_attached (snd st)"
    by (simp add: set_boundEmitter_states_ok)
  moreover from ok1
  have "\<forall>st \<in> set (set_boundEmitter_states (Some B) b1 w1). at_most_one_attached (snd st)"
    by (rule set_boundEmitter_states_ok)
  ultimately show ?thesis by blast
qed

lemma fresh_example_world: "fresh (example_world e)"
  by (simp add: fresh_def attached_def example_world_def)

theorem rebinding_moves_processEvent_witness:
  "fresh (example_world (example_env True False False)) \<and> (1::nat) \<noteq> 2
   \<and> \<not> attached (snd example_state2) 1
   \<and> deliver example_extractors (fst example_state2) 1 ''popup_closed'' JNull
        (snd example_state2) = Inr (snd example_state2)
   \<and> attached (snd example_state2) 2
   \<and> message_listeners (snd example_state2) 7 = [Foreign 0]
   \<and> message_listeners (snd example_state2) 1 = []
   \<and> message_listeners (snd example_state2) 2 = [BridgeProcessEvent]"
proof -
  have f: "fresh (example_world (example_env True False False))"
    by (rule fresh_example_world)
  have n: "(1::nat) \<noteq> 2" by simp
  have r: "run example_extractors [Bind 7]
       (Bridge_new example_props (example_world (example_env True False False)))
     = (fst example_state0, snd example_state0)"
    by (simp add: example_state0_def)
  have b1: "bind 1 (fst example_state0) (snd example_state0)
     = (fst example_state1, snd example_state1)"
    by (simp add: example_state1_def)
  have b2: "bind 2 (fst example_state1) (snd example_state1)
     = (fst example_state2, snd example_state2)"
    by (simp add: example_state2_def)
  note t = rebinding_moves_processEvent [OF f n r b1 b2, of "''popup_closed''" JNull]
  have l: "message_listeners (snd example_state2) 7 = [Foreign 0]
      \<and> message_listeners (snd example_state2) 1 = []
      \<and> message_listeners (snd example_state2) 2 = [BridgeProcessEvent]"
    by (simp add: example_state2_def example_state1_def example_state0_def bind_def
        set_boundEmitter_def detach_previous_def assign_emitter_def attach_current_def
        source_on_def source_off_def Bridge_new_def example_props_def example_world_def
        Let_def)
  from t f n l show ?thesis by blast
qed

text \<open>
  Claim C7. From any reachable state, \<open>unbind\<close> after \<open>bind A\<close> leaves the bridge unbound
  and \<open>processEvent\<close> attached to no source, so a message on \<open>A\<close> changes nothing; this
  stays so after any later operations that do not bind again. \<open>unbind\<close> on an unbound
  bridge returns the bridge and the world as they were.
\<close>

theorem unbind_detaches:
  assumes "fresh u"
    and "run X xs (Bridge_new props u) = (b, w)"
    and "bind A b w = (b1, w1)"
    and "unbind b1 w1 = (b2, w2)"
  shows "boundEmitter b2 = None \<and> (\<forall>s. \<not> attached w2 s)
       \<and> deliver X b2 A type data w2 = Inr w2
       \<and> (\<forall>later. (\<forall>s. Bind s \<notin> set later) \<longrightarrow>
             boundEmitter (fst (run X later (b2, w2))) = None
             \<and> deliver X (fst (run X later (b2, w2))) A type data
                 (snd (run X later (b2, w2)))
               = Inr (snd (run X later (b2, w2))))
       \<and> (\<forall>b' w'. boundEmitter b' = None \<longrightarrow> unbind b' w' = (b', w'))"
proof -
  from assms(1,2) binding_ok_reachable [of u X xs props]
  have ok: "binding_ok (b, w)" by simp
  with assms(3) binding_ok_set_boundEmitter [of b w "Some A"]
  have ok1: "binding_ok (b1, w1)" by (simp add: bind_def)
  with assms(4) binding_ok_set_boundEmitter [of b1 w1 None]
  have ok2: "binding_ok (b2, w2)" by (simp add: unbind_def)
  from assms(4) boundEmitter_set_boundEmitter [of None b1 w1]
  have unbound: "boundEmitter b2 = None" by (simp add: unbind_def)
  from ok2 unbound have none: "\<forall>s. \<not> attached w2 s"
    by (simp add: binding_ok_attached)
  from ok2 unbound have quiet: "deliver X b2 A type data w2 = Inr w2"
    by (simp add: deliver_unbound_source)
  have later: "boundEmitter (fst (run X later (b2, w2))) = None
      \<and> deliver X (fst (run X later (b2, w2))) A type data (snd (run X later (b2, w2)))
        = Inr (snd (run X later (b2, w2)))"
    if nb: "\<forall>s. Bind s \<notin> set later" for later
  proof -
    from nb unbound have u: "boundEmitter (fst (run X later (b2, w2))) = None"
      by (simp add: boundEmitter_run)
    from ok2 have "binding_ok (run X later (b2, w2))"
      by (rule binding_ok_run)
    then have "binding_ok (fst (run X later (b2, w2)), snd (run X later (b2, w2)))"
      by simp
    with u show ?thesis
      by (simp add: deliver_unbound_source)
  qed
  have noop: "unbind b' w' = (b', w')" if "boundEmitter b' = None" for b' w'
    using that
    by (simp add: unbind_def set_boundEmitter_def detach_previous_def assign_emitter_def
        attach_current_def Let_def)
  from unbound none quiet later noop show ?thesis by blast
qed

theorem unbind_detaches_witness:
  "fresh (example_world (example_env True False False))
   \<and> boundEmitter (fst example_state3) = None
   \<and> deliver example_extractors (fst example_state3) 1 ''popup_closed'' JNull
        (snd example_state3) = Inr (snd example_state3)
   \<and> message_listeners (snd example_state1) 1 = [BridgeProcessEvent]
   \<and> message_listeners (snd example_state3) 1 = []
   \<and> unbind (fst example_state3) (snd example_state3) = example_state3"
proof -
  have f: "fresh (example_world (example_env True False False))"
    by (rule fresh_example_world)
  have r: "run example_extractors [Bind 7]
       (Bridge_new example_props (example_world (example_env True False False)))
     = (fst example_state0, snd example_state0)"
    by (simp add: example_state0_def)
  have b1: "bind 1 (fst example_state0) (snd example_state0)
     = (fst example_state1, snd example_state1)"
    by (simp add: example_state1_def)
  have b3: "unbind (fst example_state1) (snd example_state1)
     = (fst example_state3, snd example_state3)"
    by (simp add: example_state3_def)
  note t = unbind_detaches [OF f r b1 b3, of "''popup_closed''" JNull]
  from t have u: "boundEmitter (fst example_state3) = None" by blast
  from t have d: "deliver example_extractors (fst example_state3) 1 ''popup_closed'' JNull
        (snd example_state3) = Inr (snd example_state3)" by blast
  from t u have "unbind (fst example_state3) (snd example_state3)
      = (fst example_state3, snd example_state3)" by blast
  then have i: "unbind (fst example_state3) (snd example_state3) = example_state3"
    by simp
  have l: "message_listeners (snd example_state1) 1 = [BridgeProcessEvent]
      \<and> message_listeners (snd example_state3) 1 = []"
    by (simp add: example_state3_def example_state1_def example_state0_def bind_def
        unbind_def set_boundEmitter_def detach_previous_def assign_emitter_def
        attach_current_def source_on_def source_off_def Bridge_new_def example_props_def
        example_world_def Let_def)
  from f u d l i show ?thesis by blast
qed

text \<open>
  Claim C9. Constructing a bridge with an emitter \<open>E\<close> gives the same bridge and the same
  world as constructing it without an emitter and then calling \<open>bind E\<close>. The
  construction without an emitter leaves the world as it was, and both the constructor
  and \<open>bind\<close> attach through the one setter.
\<close>

theorem construction_binds_like_bind:
  "Bridge_new (props\<lparr>props_emitter := Some E\<rparr>) w =
     bind E (fst (Bridge_new (props\<lparr>props_emitter := None\<rparr>) w))
            (snd (Bridge_new (props\<lparr>props_emitter := None\<rparr>) w))
   \<and> snd (Bridge_new (props\<lparr>props_emitter := None\<rparr>) w) = w
   \<and> boundEmitter (fst (Bridge_new (props\<lparr>props_emitter := None\<rparr>) w)) = None
   \<and> Bridge_new (props\<lparr>props_emitter := Some E\<rparr>) w =
       set_boundEmitter (Some E) (fst (Bridge_new (props\<lparr>props_emitter := None\<rparr>) w)) w
   \<and> bind E b w = set_boundEmitter (Some E) b w"
  by (simp add: Bridge_new_def bind_def set_boundEmitter_def detach_previous_def
      assign_emitter_def attach_current_def Let_def)

theorem construction_binds_like_bind_witness:
  "message_listeners (snd (Bridge_new (example_props\<lparr>props_emitter := Some 7\<rparr>)
       (example_world (example_env True False False)))) 7 = [Foreign 0, BridgeProcessEvent]
   \<and> message_listeners (snd (bind 7
       (fst (Bridge_new (example_props\<lparr>props_emitter := None\<rparr>)
          (example_world (example_env True False False))))
       (snd (Bridge_new (example_props\<lparr>props_emitter := None\<rparr>)
          (example_world (example_env True False False)))))) 7
     = [Foreign 0, BridgeProcessEvent]"
proof -
  have "message_listeners (snd (Bridge_new (example_props\<lparr>props_emitter := Some 7\<rparr>)
       (example_world (example_env True False False)))) 7 = [Foreign 0, BridgeProcessEvent]"
    by (simp add: Bridge_new_def set_boundEmitter_def detach_previous_def
        assign_emitter_def attach_current_def source_on_def example_props_def
        example_world_def Let_def)
  with construction_binds_like_bind [where props = example_props and E = 7
      and w = "example_world (example_env True False False)"]
  show ?thesis by simp
qed

end
